theory Spec2Isabelle
  imports Main "HOL-Library.Sublist"
begin

section \<open>genkinds.py: the generator of cvc/Kind.java\<close>

text \<open>
  The script \<^verbatim>\<open>src/api/java/genkinds.py\<close> takes the ordered mapping \<^verbatim>\<open>parser.kinds\<close>
  (kind identifier to display name) and writes a Java enumeration \<^verbatim>\<open>Kind\<close> to a file.
  The first part of this theory embeds the Python function \<^verbatim>\<open>gen_java\<close>; the second part
  gives the Java text it emits its meaning (the declared constants, the static map,
  \<^verbatim>\<open>fromInt\<close> and \<^verbatim>\<open>getValue\<close>).
\<close>

subsection \<open>Strings, lines and decimal numerals\<close>

definition newline :: char where
  "newline = CHR 0x0A"

text \<open>A block of text given line by line; every line is ended by a newline.\<close>

definition unlines :: "string list \<Rightarrow> string" where
  "unlines ls = concat (map (\<lambda>l. l @ [newline]) ls)"

text \<open>
  The decimal numeral of an integer, as Python's \<^verbatim>\<open>str.format\<close> renders an \<^verbatim>\<open>int\<close> in a
  \<^verbatim>\<open>{}\<close> field and as Java's string concatenation renders an \<^verbatim>\<open>int\<close>: the digits without
  leading zeros, after a minus sign for a negative number.
\<close>

fun digits_of :: "nat \<Rightarrow> string" where
  "digits_of n =
     (if n < 10 then [''0123456789'' ! n]
      else digits_of (n div 10) @ [''0123456789'' ! (n mod 10)])"

declare digits_of.simps [simp del]

definition str_int :: "int \<Rightarrow> string" where
  "str_int i = (if i < 0 then CHR ''-'' # digits_of (nat (- i)) else digits_of (nat i))"

subsection \<open>The code blocks\<close>

definition KINDS_JAVA_TOP :: string where
  \<open>KINDS_JAVA_TOP = unlines
    [''package cvc;'',
     '''',
     ''import java.util.HashMap;'',
     ''import java.util.Map;'',
     '''',
     ''public enum Kind '',
     ''{'']\<close>

definition KINDS_JAVA_BOTTOM :: string where
  \<open>KINDS_JAVA_BOTTOM = unlines
    ['';'',
     '''',
     ''  /* the int value of the kind */'',
     ''  private int value;'',
     ''  private static Map<Integer, Kind> kindMap = new HashMap<>();'',
     ''  private Kind(int value)'',
     ''  {'',
     ''    this.value = value;'',
     ''  }'',
     '''',
     ''  static'',
     ''  {'',
     ''    for (Kind kind : Kind.values())'',
     ''    {'',
     ''      kindMap.put(kind.getValue(), kind);'',
     ''    }'',
     ''  }'',
     '''',
     ''  public static Kind fromInt(int value) throws CVCApiException'',
     ''  {'',
     ''    if (value < INTERNAL_KIND.value || value > LAST_KIND.value)'',
     ''    {'',
     ''      throw new CVCApiException("Kind value " + value + " is outside the valid range ["'',
     ''          + INTERNAL_KIND.value + "," + LAST_KIND.value + "]");'',
     ''    }'',
     ''    return kindMap.get(value);'',
     ''  }'',
     '''',
     ''  public int getValue()'',
     ''  {'',
     ''    return value;'',
     ''  }'',
     ''}'']\<close>

subsection \<open>gen\_java\<close>

text \<open>
  \<^verbatim>\<open>parser.kinds\<close> is an ordered dictionary; the loop walks \<^verbatim>\<open>parser.kinds.items()\<close>, the
  list of its (key, value) pairs in insertion order. The keys of a dictionary are pairwise
  distinct. In the loop the key is bound to \<^verbatim>\<open>kind\<close> and the value to \<^verbatim>\<open>name\<close>.
\<close>

type_synonym kinds = "(string \<times> string) list"

text \<open>The row added for one entry: \<^verbatim>\<open>"  {name}({enum_value}),\n".format(name=kind, enum_value=enum_value)\<close>.\<close>

definition member_row :: "string \<Rightarrow> int \<Rightarrow> string" where
  "member_row name enum_value = ''  '' @ name @ ''('' @ str_int enum_value @ ''),'' @ [newline]"

text \<open>The \<^verbatim>\<open>for\<close> loop, on the pair of the variables \<^verbatim>\<open>code\<close> and \<^verbatim>\<open>enum_value\<close>.\<close>

fun gen_java_loop :: "kinds \<Rightarrow> string \<times> int \<Rightarrow> string \<times> int" where
  "gen_java_loop [] (code, enum_value) = (code, enum_value)"
| "gen_java_loop ((kind, name) # items) (code, enum_value) =
     gen_java_loop items (code @ member_row kind enum_value, enum_value + 1)"

text \<open>The value of \<^verbatim>\<open>code\<close> when it is handed to \<^verbatim>\<open>f.write\<close>.\<close>

definition gen_java_code :: "kinds \<Rightarrow> string" where
  "gen_java_code items = fst (gen_java_loop items (KINDS_JAVA_TOP, - 2)) @ KINDS_JAVA_BOTTOM"

text \<open>
  The file system is a map from file names to contents. \<^verbatim>\<open>open(filename, "w")\<close> creates the
  file or truncates it to length zero, before the text is built; \<^verbatim>\<open>f.write(code)\<close> then
  stores the text. Both calls can raise \<^verbatim>\<open>OSError\<close>; what the environment does is a
  parameter of the model: no fault, a failing \<^verbatim>\<open>open\<close> (the file system is untouched), or
  a write that fails after some number of characters has reached the file.
\<close>

datatype io_fault = NoFault | OpenFails | WriteFails nat

datatype gen_error = OSError

type_synonym files = "string \<rightharpoonup> string"

definition gen_java :: "io_fault \<Rightarrow> kinds \<Rightarrow> string \<Rightarrow> files \<Rightarrow> (gen_error + unit) \<times> files" where
  "gen_java fault items filename fs =
     (case fault of
        OpenFails \<Rightarrow> (Inl OSError, fs)
      | WriteFails written \<Rightarrow>
          (let opened = fs(filename \<mapsto> []);
               code = gen_java_code items
           in (Inl OSError, opened(filename \<mapsto> take written code)))
      | NoFault \<Rightarrow>
          (let opened = fs(filename \<mapsto> []);
               code = gen_java_code items
           in (Inr (), opened(filename \<mapsto> code))))"

section \<open>The generated enumeration\<close>

text \<open>
  The text that \<^verbatim>\<open>gen_java\<close> writes is a Java source file. This section reads it the way
  Java does, as far as the enumeration and its lookup are concerned: the enum constants
  declared between the opening brace and the semicolon, and then the members that
  \<^verbatim>\<open>KINDS_JAVA_BOTTOM\<close> declares. Java's \<^verbatim>\<open>int\<close> is modelled by \<^typ>\<open>int\<close>: the generated code
  compares and prints these numbers and does no arithmetic on them. Limits of the Java
  compiler on the size of a class are outside the model.
\<close>

subsection \<open>The enum constants declared by the text\<close>

text \<open>The lines of a text, without their newlines.\<close>

fun lines_of :: "string \<Rightarrow> string list" where
  "lines_of [] = []"
| "lines_of (c # cs) =
     (if c = newline then [] # lines_of cs
      else (case lines_of cs of [] \<Rightarrow> [[c]] | l # ls \<Rightarrow> (c # l) # ls))"

text \<open>
  A Java identifier: letters, digits, underscore and dollar sign, not starting with a
  digit, and not a reserved word. A constant of \<^verbatim>\<open>Kind\<close> can also not be called \<^verbatim>\<open>value\<close> or
  \<^verbatim>\<open>kindMap\<close>, the fields that the class declares itself.
\<close>

definition java_letter :: "char \<Rightarrow> bool" where
  "java_letter c \<longleftrightarrow> c \<in> set ''ABCDEFGHIJKLMNOPQRSTUVWXYZabcdefghijklmnopqrstuvwxyz_$''"

definition java_digit :: "char \<Rightarrow> bool" where
  "java_digit c \<longleftrightarrow> c \<in> set ''0123456789''"

definition java_reserved :: "string list" where
  "java_reserved =
     [''abstract'', ''assert'', ''boolean'', ''break'', ''byte'', ''case'', ''catch'', ''char'',
      ''class'', ''const'', ''continue'', ''default'', ''do'', ''double'', ''else'', ''enum'',
      ''extends'', ''final'', ''finally'', ''float'', ''for'', ''goto'', ''if'', ''implements'',
      ''import'', ''instanceof'', ''int'', ''interface'', ''long'', ''native'', ''new'',
      ''package'', ''private'', ''protected'', ''public'', ''return'', ''short'', ''static'',
      ''strictfp'', ''super'', ''switch'', ''synchronized'', ''this'', ''throw'', ''throws'',
      ''transient'', ''try'', ''void'', ''volatile'', ''while'', ''_'',
      ''true'', ''false'', ''null'',
      ''value'', ''kindMap'']"

definition java_identifier :: "string \<Rightarrow> bool" where
  "java_identifier s \<longleftrightarrow>
     (case s of
        [] \<Rightarrow> False
      | c # cs \<Rightarrow> java_letter c \<and> list_all (\<lambda>d. java_letter d \<or> java_digit d) cs)
     \<and> s \<notin> set java_reserved"

text \<open>
  A decimal integer literal with an optional minus sign in front. A numeral of several
  digits that starts with 0 is not decimal.
\<close>

definition digit_value :: "char \<Rightarrow> nat" where
  "digit_value c = of_char c - 48"

definition nat_literal :: "string \<Rightarrow> nat option" where
  "nat_literal s =
     (if s \<noteq> [] \<and> list_all java_digit s \<and> (length s = 1 \<or> hd s \<noteq> CHR ''0'')
      then Some (foldl (\<lambda>n c. 10 * n + digit_value c) 0 s)
      else None)"

definition int_literal :: "string \<Rightarrow> int option" where
  "int_literal s =
     (case s of
        [] \<Rightarrow> None
      | c # ds \<Rightarrow>
          if c = CHR ''-'' then map_option (\<lambda>n. - int n) (nat_literal ds)
          else map_option int (nat_literal s))"

text \<open>
  An enum constant of \<^verbatim>\<open>Kind\<close>: its name and the \<^verbatim>\<open>value\<close> field that the constructor
  \<^verbatim>\<open>Kind(int value)\<close> stores.
\<close>

datatype Kind = Kind (kind_name: string) (getValue: int)

text \<open>
  One row of the constant list, \<^verbatim>\<open>NAME(ARGUMENT),\<close> after its indentation: the constant it
  declares, or nothing when the row is not of that form.
\<close>

definition enum_constant :: "string \<Rightarrow> Kind option" where
  "enum_constant row =
     (let t = dropWhile (\<lambda>c. c = CHR '' '') row;
          ident = takeWhile (\<lambda>c. c \<noteq> CHR ''('') t;
          arg = takeWhile (\<lambda>c. c \<noteq> CHR '')'') (drop 1 (dropWhile (\<lambda>c. c \<noteq> CHR ''('') t));
          closing = dropWhile (\<lambda>c. c \<noteq> CHR '')'') (drop 1 (dropWhile (\<lambda>c. c \<noteq> CHR ''('') t))
      in if java_identifier ident \<and> closing = ''),''
         then map_option (Kind ident) (int_literal arg)
         else None)"

text \<open>The rows of the constant list: the lines after the line \<^verbatim>\<open>{\<close> and before the line \<^verbatim>\<open>;\<close>.\<close>

definition enum_rows :: "string list \<Rightarrow> string list" where
  "enum_rows ls = takeWhile (\<lambda>l. l \<noteq> '';'') (drop 1 (dropWhile (\<lambda>l. l \<noteq> ''{'') ls))"

text \<open>
  \<^verbatim>\<open>Kind.values()\<close>: the constants in the order of their declaration. There is no such
  list when a row is not a constant declaration or when two constants have the same name
  (the class is rejected by the compiler).
\<close>

definition Kind_values :: "string \<Rightarrow> Kind list option" where
  "Kind_values text =
     (case those (map enum_constant (enum_rows (lines_of text))) of
        None \<Rightarrow> None
      | Some ks \<Rightarrow> if distinct (map kind_name ks) then Some ks else None)"

subsection \<open>The members declared by KINDS\_JAVA\_BOTTOM\<close>

text \<open>
  The static initializer: \<^verbatim>\<open>for (Kind kind : Kind.values()) kindMap.put(kind.getValue(), kind);\<close>
  on a map that starts empty. \<^verbatim>\<open>kindMap.get\<close> gives \<^verbatim>\<open>null\<close> (here \<^term>\<open>None\<close>) for a key that
  was never put.
\<close>

definition kindMap :: "Kind list \<Rightarrow> int \<rightharpoonup> Kind" where
  "kindMap ks = fold (\<lambda>kind m. m(getValue kind \<mapsto> kind)) ks Map.empty"

text \<open>
  A constant referred to by its name, as \<^verbatim>\<open>INTERNAL_KIND\<close> and \<^verbatim>\<open>LAST_KIND\<close> are in \<^verbatim>\<open>fromInt\<close>.
  A name that the enumeration does not declare is a compile-time error (the symbol cannot
  be found): the class is rejected and \<^verbatim>\<open>fromInt\<close> cannot be called at all.
\<close>

definition constant_named :: "Kind list \<Rightarrow> string \<Rightarrow> Kind option" where
  "constant_named ks ident = find (\<lambda>k. kind_name k = ident) ks"

datatype java_failure = CannotFindSymbol string | CVCApiException string

text \<open>
  \<^verbatim>\<open>fromInt\<close> of the enumeration with the constants \<open>ks\<close>. The result is the failure, or the
  reference that \<^verbatim>\<open>kindMap.get(value)\<close> returns.
\<close>

definition fromInt :: "Kind list \<Rightarrow> int \<Rightarrow> java_failure + Kind option" where
  \<open>fromInt ks v =
     (case constant_named ks ''INTERNAL_KIND'' of
        None \<Rightarrow> Inl (CannotFindSymbol ''INTERNAL_KIND'')
      | Some INTERNAL_KIND \<Rightarrow>
          (case constant_named ks ''LAST_KIND'' of
             None \<Rightarrow> Inl (CannotFindSymbol ''LAST_KIND'')
           | Some LAST_KIND \<Rightarrow>
               if v < getValue INTERNAL_KIND \<or> v > getValue LAST_KIND
               then Inl (CVCApiException
                           (''Kind value '' @ str_int v @ '' is outside the valid range [''
                            @ str_int (getValue INTERNAL_KIND) @ '','' @ str_int (getValue LAST_KIND)
                            @ '']''))
               else Inr (kindMap ks v)))\<close>

section \<open>Properties of the emitted text\<close>

lemma gen_java_loop_rows:
  "gen_java_loop items (code, ev) =
     (code @ concat (map (\<lambda>(kind, k). member_row kind (ev + int k))
                      (zip (map fst items) [0..<length items])),
      ev + int (length items))"
proof (induction items arbitrary: code ev)
  case Nil
  show ?case by simp
next
  case (Cons entry items)
  obtain kind name where entry: "entry = (kind, name)" by (cases entry)
  have shift: "[0..<Suc (length items)] = 0 # map Suc [0..<length items]"
    by (simp add: upt_conv_Cons map_Suc_upt del: upt_Suc)
  have "map (\<lambda>(kind, k). member_row kind (ev + int k))
          (zip (map fst items) (map Suc [0..<length items]))
        = map (\<lambda>(kind, k). member_row kind (ev + 1 + int k))
          (zip (map fst items) [0..<length items])"
    by (simp add: zip_map2 split_def add.assoc)
  then show ?case
    using Cons.IH [of "code @ member_row kind ev" "ev + 1"]
    by (simp add: entry shift del: upt_Suc)
qed

lemma gen_java_code_rows:
  "gen_java_code items =
     KINDS_JAVA_TOP
     @ concat (map (\<lambda>(kind, k). member_row kind (- 2 + int k))
                 (zip (map fst items) [0..<length items]))
     @ KINDS_JAVA_BOTTOM"
  by (simp add: gen_java_code_def gen_java_loop_rows)

subsection \<open>What gen\_java leaves in the file system\<close>

lemma gen_java_NoFault:
  "gen_java NoFault items filename fs = (Inr (), fs(filename \<mapsto> gen_java_code items))"
  by (simp add: gen_java_def)

lemma gen_java_OpenFails:
  "gen_java OpenFails items filename fs = (Inl OSError, fs)"
  by (simp add: gen_java_def)

lemma gen_java_WriteFails:
  "gen_java (WriteFails written) items filename fs =
     (Inl OSError, fs(filename \<mapsto> take written (gen_java_code items)))"
  by (simp add: gen_java_def)

section \<open>Reading the emitted text as Java\<close>

subsection \<open>Lines and numerals\<close>

lemma lines_of_line:
  "newline \<notin> set l \<Longrightarrow> lines_of (l @ newline # rest) = l # lines_of rest"
  by (induction l) auto

lemma lines_of_unlines:
  "\<forall>l\<in>set ls. newline \<notin> set l \<Longrightarrow> lines_of (unlines ls @ rest) = ls @ lines_of rest"
  by (induction ls) (simp_all add: unlines_def lines_of_line)

lemma digit_char_cases:
  assumes "d < (10::nat)"
  shows "d = 0 \<or> d = 1 \<or> d = 2 \<or> d = 3 \<or> d = 4 \<or> d = 5 \<or> d = 6 \<or> d = 7 \<or> d = 8 \<or> d = 9"
  using assms by arith

lemma digit_char_java_digit: "d < 10 \<Longrightarrow> java_digit (''0123456789'' ! d)"
  unfolding java_digit_def by (rule nth_mem) simp

lemma digit_value_digit_char: "d < 10 \<Longrightarrow> digit_value (''0123456789'' ! d) = d"
  using digit_char_cases [of d] by (auto simp add: digit_value_def)

lemma digit_char_zero: "d < 10 \<Longrightarrow> 0 < d \<Longrightarrow> ''0123456789'' ! d \<noteq> CHR ''0''"
  using digit_char_cases [of d] by auto

lemma digits_of_not_Nil: "digits_of n \<noteq> []"
  by (subst digits_of.simps) simp

lemma digits_of_java_digit: "list_all java_digit (digits_of n)"
proof (induction n rule: digits_of.induct)
  case (1 n)
  show ?case
  proof (cases "n < 10")
    case True
    then show ?thesis by (subst digits_of.simps) (simp add: digit_char_java_digit)
  next
    case False
    then show ?thesis
      using 1 by (subst digits_of.simps) (simp add: digit_char_java_digit)
  qed
qed

lemma digits_of_value: "foldl (\<lambda>n c. 10 * n + digit_value c) 0 (digits_of n) = n"
proof (induction n rule: digits_of.induct)
  case (1 n)
  show ?case
  proof (cases "n < 10")
    case True
    then show ?thesis by (subst digits_of.simps) (simp add: digit_value_digit_char)
  next
    case False
    then show ?thesis
      using 1 by (subst digits_of.simps) (simp add: digit_value_digit_char)
  qed
qed

lemma digits_of_hd: "0 < n \<Longrightarrow> hd (digits_of n) \<noteq> CHR ''0''"
proof (induction n rule: digits_of.induct)
  case (1 n)
  show ?case
  proof (cases "n < 10")
    case True
    then have "''0123456789'' ! n \<noteq> CHR ''0''" using 1(2) by (rule digit_char_zero)
    then show ?thesis using True by (subst digits_of.simps) (simp del: nth_Cons_numeral nth_Cons')
  next
    case False
    then have "0 < n div 10" by simp
    then show ?thesis
      using 1(1) False by (subst digits_of.simps) (simp add: digits_of_not_Nil)
  qed
qed

lemma digits_of_length_1: "n < 10 \<Longrightarrow> length (digits_of n) = 1"
  by (subst digits_of.simps) simp

lemma nat_literal_digits_of: "nat_literal (digits_of n) = Some n"
proof -
  have "length (digits_of n) = 1 \<or> hd (digits_of n) \<noteq> CHR ''0''"
  proof (cases "n < 10")
    case True
    then show ?thesis by (simp add: digits_of_length_1)
  next
    case False
    then show ?thesis by (simp add: digits_of_hd)
  qed
  then show ?thesis
    by (simp add: nat_literal_def digits_of_not_Nil digits_of_java_digit digits_of_value)
qed

lemma java_digit_not_minus: "java_digit c \<Longrightarrow> c \<noteq> CHR ''-''"
  by (auto simp add: java_digit_def)

lemma digits_of_hd_not_minus: "hd (digits_of n) \<noteq> CHR ''-''"
proof -
  have "hd (digits_of n) \<in> set (digits_of n)" by (simp add: digits_of_not_Nil)
  then have "java_digit (hd (digits_of n))"
    using digits_of_java_digit [of n] by (simp add: list_all_iff)
  then show ?thesis by (rule java_digit_not_minus)
qed

lemma int_literal_str_int: "int_literal (str_int v) = Some v"
proof (cases "v < 0")
  case True
  then show ?thesis by (simp add: int_literal_def str_int_def nat_literal_digits_of)
next
  case False
  obtain c ds where ds: "digits_of (nat v) = c # ds"
    using digits_of_not_Nil [of "nat v"] by (cases "digits_of (nat v)") auto
  have "c \<noteq> CHR ''-''" using digits_of_hd_not_minus [of "nat v"] ds by simp
  then show ?thesis
    using False nat_literal_digits_of [of "nat v"] by (simp add: int_literal_def str_int_def ds)
qed

lemma java_letter_plain:
  "java_letter c \<Longrightarrow> c \<noteq> CHR '' '' \<and> c \<noteq> CHR ''('' \<and> c \<noteq> newline"
  by (auto simp add: java_letter_def newline_def)

lemma java_digit_plain:
  "java_digit c \<Longrightarrow> c \<noteq> CHR ''('' \<and> c \<noteq> CHR '')'' \<and> c \<noteq> newline"
  by (auto simp add: java_digit_def newline_def)

lemma java_identifier_chars:
  assumes "java_identifier s"
  shows "s \<noteq> []" and "hd s \<noteq> CHR '' ''" and "CHR ''('' \<notin> set s" and "newline \<notin> set s"
proof -
  obtain c cs where s: "s = c # cs" and c: "java_letter c"
    and cs: "\<forall>d\<in>set cs. java_letter d \<or> java_digit d"
    using assms by (cases s) (auto simp add: java_identifier_def list_all_iff)
  show "s \<noteq> []" by (simp add: s)
  show "hd s \<noteq> CHR '' ''" using c java_letter_plain by (simp add: s)
  show "CHR ''('' \<notin> set s" using c cs java_letter_plain java_digit_plain by (auto simp add: s)
  show "newline \<notin> set s" using c cs java_letter_plain java_digit_plain by (auto simp add: s)
qed

lemma str_int_chars:
  assumes "c \<in> set (str_int v)"
  shows "c \<noteq> CHR '')''" and "c \<noteq> newline"
proof -
  have "c = CHR ''-'' \<or> java_digit c"
    using assms digits_of_java_digit [of "nat v"] digits_of_java_digit [of "nat (- v)"]
    by (auto simp add: str_int_def list_all_iff split: if_splits)
  then show "c \<noteq> CHR '')''" and "c \<noteq> newline"
    using java_digit_plain [of c] by (auto simp add: newline_def)
qed

lemma enum_constant_row:
  assumes "java_identifier kind"
  shows "enum_constant (''  '' @ kind @ ''('' @ str_int v @ ''),'') = Some (Kind kind v)"
proof -
  let ?rest = "CHR ''('' # str_int v @ ''),''"
  from assms obtain c cs where kind: "kind = c # cs"
    using java_identifier_chars(1) by (cases kind) auto
  have c: "c \<noteq> CHR '' ''" using java_identifier_chars(2) [OF assms] by (simp add: kind)
  have indent: "dropWhile (\<lambda>c. c = CHR '' '') (''  '' @ kind @ ''('' @ str_int v @ ''),'') = kind @ ?rest"
    using c by (simp add: kind)
  have no_paren: "\<And>x. x \<in> set kind \<Longrightarrow> x \<noteq> CHR ''(''"
    using java_identifier_chars(3) [OF assms] by auto
  have ident: "takeWhile (\<lambda>c. c \<noteq> CHR ''('') (kind @ ?rest) = kind"
    using no_paren by (simp add: takeWhile_append2)
  have after: "drop 1 (dropWhile (\<lambda>c. c \<noteq> CHR ''('') (kind @ ?rest)) = str_int v @ ''),''"
    using no_paren by (simp add: dropWhile_append2)
  have no_close: "\<And>x. x \<in> set (str_int v) \<Longrightarrow> x \<noteq> CHR '')''"
    using str_int_chars(1) by auto
  have arg: "takeWhile (\<lambda>c. c \<noteq> CHR '')'') (str_int v @ ''),'') = str_int v"
    using no_close by (simp add: takeWhile_append2)
  have closing: "dropWhile (\<lambda>c. c \<noteq> CHR '')'') (str_int v @ ''),'') = ''),''"
    using no_close by (simp add: dropWhile_append2)
  show ?thesis
    unfolding enum_constant_def indent ident after arg closing Let_def
    using assms by (simp add: int_literal_str_int)
qed

lemma those_map_Some:
  "\<forall>x\<in>set xs. f x = Some (g x) \<Longrightarrow> those (map f xs) = Some (map g xs)"
  by (induction xs) simp_all

lemma unlines_Cons: "unlines (l # ls) = l @ newline # unlines ls"
  by (simp add: unlines_def)

lemma unlines_append: "unlines (ls @ ms) = unlines ls @ unlines ms"
  by (simp add: unlines_def)

lemma enum_rows_after_top:
  "enum_rows (lines_of (KINDS_JAVA_TOP @ rest)) = takeWhile (\<lambda>l. l \<noteq> '';'') (lines_of rest)"
  unfolding KINDS_JAVA_TOP_def enum_rows_def
  by (subst lines_of_unlines) (simp_all add: newline_def)

lemma lines_of_bottom: "\<exists>ls. lines_of KINDS_JAVA_BOTTOM = '';'' # ls"
proof -
  have "\<exists>rest. KINDS_JAVA_BOTTOM = '';'' @ newline # rest"
    unfolding KINDS_JAVA_BOTTOM_def by (subst unlines_Cons) (rule exI, rule refl)
  then obtain rest where rest: "KINDS_JAVA_BOTTOM = '';'' @ newline # rest" ..
  have "lines_of ('';'' @ newline # rest) = '';'' # lines_of rest"
    by (rule lines_of_line) (simp add: newline_def)
  then show ?thesis unfolding rest ..
qed

lemma enum_rows_text:
  assumes "\<forall>r\<in>set rows. newline \<notin> set r \<and> r \<noteq> '';''"
  shows "enum_rows (lines_of (KINDS_JAVA_TOP @ unlines rows @ KINDS_JAVA_BOTTOM)) = rows"
proof -
  obtain ls where ls: "lines_of KINDS_JAVA_BOTTOM = '';'' # ls"
    using lines_of_bottom by blast
  have "lines_of (unlines rows @ KINDS_JAVA_BOTTOM) = rows @ '';'' # ls"
    using assms by (simp add: lines_of_unlines ls)
  moreover have "takeWhile (\<lambda>l. l \<noteq> '';'') (rows @ '';'' # ls) = rows"
    using assms by (simp add: takeWhile_append2)
  ultimately show ?thesis by (simp add: enum_rows_after_top)
qed

lemma gen_java_code_unlines:
  "gen_java_code items =
     KINDS_JAVA_TOP
     @ unlines (map (\<lambda>(kind, k). ''  '' @ kind @ ''('' @ str_int (- 2 + int k) @ ''),'')
                 (zip (map fst items) [0..<length items]))
     @ KINDS_JAVA_BOTTOM"
  by (simp add: gen_java_code_rows unlines_def member_row_def split_def comp_def)

lemma Kind_values_rows:
  assumes idents: "\<forall>kind\<in>set (map fst items). java_identifier kind"
  shows "those (map enum_constant (enum_rows (lines_of (gen_java_code items))))
         = Some (map (\<lambda>(kind, k). Kind kind (- 2 + int k)) (zip (map fst items) [0..<length items]))"
proof -
  let ?zs = "zip (map fst items) [0..<length items]"
  let ?row = "\<lambda>(kind, k). ''  '' @ kind @ ''('' @ str_int (- 2 + int k) @ ''),''"
  have ident: "java_identifier kind" if "(kind, k) \<in> set ?zs" for kind k
    using set_zip_leftD [OF that] idents by auto
  have plain: "\<forall>r\<in>set (map ?row ?zs). newline \<notin> set r \<and> r \<noteq> '';''"
  proof
    fix r assume "r \<in> set (map ?row ?zs)"
    then obtain kind k where z: "(kind, k) \<in> set ?zs"
      and r: "r = ''  '' @ kind @ ''('' @ str_int (- 2 + int k) @ ''),''"
      by auto
    have "newline \<notin> set kind" using ident [OF z] by (rule java_identifier_chars(4))
    moreover have "newline \<notin> set (str_int (- 2 + int k))" using str_int_chars(2) by blast
    ultimately show "newline \<notin> set r \<and> r \<noteq> '';''" by (simp add: r newline_def)
  qed
  have rows: "enum_rows (lines_of (gen_java_code items)) = map ?row ?zs"
    unfolding gen_java_code_unlines using plain by (rule enum_rows_text)
  have "\<forall>z\<in>set ?zs. enum_constant (?row z) = Some ((\<lambda>(kind, k). Kind kind (- 2 + int k)) z)"
  proof
    fix z assume z: "z \<in> set ?zs"
    obtain kind k where zk: "z = (kind, k)" by (cases z)
    have "java_identifier kind" using z ident by (simp only: zk)
    then show "enum_constant (?row z) = Some ((\<lambda>(kind, k). Kind kind (- 2 + int k)) z)"
      by (simp only: zk prod.case enum_constant_row)
  qed
  then have "those (map (\<lambda>z. enum_constant (?row z)) ?zs)
             = Some (map (\<lambda>(kind, k). Kind kind (- 2 + int k)) ?zs)"
    by (rule those_map_Some)
  then show ?thesis by (simp add: rows comp_def)
qed

lemma kind_names_rows:
  "map kind_name (map (\<lambda>(kind, k). Kind kind (- 2 + int k)) (zip (map fst items) [0..<length items]))
   = map fst items"
proof -
  let ?zs = "zip (map fst items) [0..<length items]"
  have "kind_name \<circ> (\<lambda>(kind, k). Kind kind (- 2 + int k)) = fst"
    by (auto simp add: fun_eq_iff)
  then have "map kind_name (map (\<lambda>(kind, k). Kind kind (- 2 + int k)) ?zs) = map fst ?zs"
    by (simp only: map_map)
  also have "\<dots> = map fst items" by (rule map_fst_zip) simp
  finally show ?thesis .
qed

subsection \<open>The static map and the lookup\<close>

lemma kindMap_snoc: "kindMap (ks @ [k]) = (kindMap ks)(getValue k \<mapsto> k)"
  by (simp add: kindMap_def)

lemma kindMap_absent: "v \<notin> getValue ` set ks \<Longrightarrow> kindMap ks v = None"
proof (induction ks rule: rev_induct)
  case Nil
  show ?case by (simp add: kindMap_def)
next
  case (snoc k ks)
  then show ?case by (auto simp add: kindMap_snoc)
qed

lemma kindMap_member:
  "distinct (map getValue ks) \<Longrightarrow> m \<in> set ks \<Longrightarrow> kindMap ks (getValue m) = Some m"
proof (induction ks rule: rev_induct)
  case Nil
  then show ?case by simp
next
  case (snoc k ks)
  show ?case
  proof (cases "m = k")
    case True
    then show ?thesis by (simp add: kindMap_snoc)
  next
    case False
    then have m: "m \<in> set ks" using snoc.prems(2) by simp
    then have "getValue m \<in> getValue ` set ks" by (rule imageI)
    then have "getValue m \<noteq> getValue k" using snoc.prems(1) by auto
    then show ?thesis using snoc.IH m snoc.prems(1) by (simp add: kindMap_snoc)
  qed
qed

lemma constant_named_member:
  "distinct (map kind_name ks) \<Longrightarrow> m \<in> set ks \<Longrightarrow> constant_named ks (kind_name m) = Some m"
  unfolding constant_named_def
  by (induction ks) (auto simp add: rev_image_eqI)

lemma constant_named_absent:
  "ident \<notin> kind_name ` set ks \<Longrightarrow> constant_named ks ident = None"
  unfolding constant_named_def
  by (induction ks) auto

text \<open>The constants of the text written for a dictionary of identifiers.\<close>

lemma Kind_values_gen_java_code:
  assumes "distinct (map fst items)" and "\<forall>kind\<in>set (map fst items). java_identifier kind"
  shows "Kind_values (gen_java_code items)
         = Some (map (\<lambda>k. Kind (fst (items ! k)) (- 2 + int k)) [0..<length items])"
proof -
  let ?zs = "zip (map fst items) [0..<length items]"
  have "map (\<lambda>(kind, k). Kind kind (- 2 + int k)) ?zs
        = map (\<lambda>k. Kind (fst (items ! k)) (- 2 + int k)) [0..<length items]"
    by (rule nth_equalityI) simp_all
  moreover have "distinct (map kind_name (map (\<lambda>(kind, k). Kind kind (- 2 + int k)) ?zs))"
    using assms(1) by (simp only: kind_names_rows)
  ultimately show ?thesis
    using Kind_values_rows [OF assms(2)] by (simp add: Kind_values_def)
qed

lemma fromInt_between:
  assumes "constant_named ks ''INTERNAL_KIND'' = Some lo"
    and "constant_named ks ''LAST_KIND'' = Some hi"
  shows "fromInt ks v =
     (if v < getValue lo \<or> v > getValue hi
      then Inl (CVCApiException
                  (''Kind value '' @ str_int v @ '' is outside the valid range [''
                   @ str_int (getValue lo) @ '','' @ str_int (getValue hi) @ '']''))
      else Inr (kindMap ks v))"
  using assms by (simp add: fromInt_def)

lemma fromInt_sentinels:
  assumes dist: "distinct (map fst items)"
    and nonempty: "items \<noteq> []"
    and hd_sentinel: "fst (hd items) = ''INTERNAL_KIND''"
    and last_sentinel: "fst (last items) = ''LAST_KIND''"
  shows "fromInt (map (\<lambda>k. Kind (fst (items ! k)) (- 2 + int k)) [0..<length items]) v =
     (if v < - 2 \<or> v > - 2 + int (length items) - 1
      then Inl (CVCApiException
                  (''Kind value '' @ str_int v @ '' is outside the valid range [''
                   @ str_int (- 2) @ '','' @ str_int (- 2 + int (length items) - 1) @ '']''))
      else Inr (Some (Kind (fst (items ! nat (v + 2))) v)))"
proof -
  let ?n = "length items"
  let ?ks = "map (\<lambda>k. Kind (fst (items ! k)) (- 2 + int k)) [0..<?n]"
  have n: "0 < ?n" using nonempty by simp
  have names: "map kind_name ?ks = map fst items"
    by (rule nth_equalityI) simp_all
  have vals: "map getValue ?ks = map (\<lambda>k. - 2 + int k) [0..<?n]"
    by simp
  have dist_names: "distinct (map kind_name ?ks)"
    using dist by (simp only: names)
  have dist_values: "distinct (map getValue ?ks)"
    unfolding vals by (simp add: distinct_map inj_on_def)
  have member: "Kind (fst (items ! k)) (- 2 + int k) \<in> set ?ks" if "k < ?n" for k
    using that by auto
  have hd_name: "fst (items ! 0) = ''INTERNAL_KIND''"
    using hd_sentinel nonempty by (simp add: hd_conv_nth)
  have last_name: "fst (items ! (?n - 1)) = ''LAST_KIND''"
    using last_sentinel nonempty by (simp add: last_conv_nth)
  have last_value: "- 2 + int (?n - 1) = - 2 + int ?n - 1"
    using n by (cases items) simp_all
  from member [OF n] have "Kind ''INTERNAL_KIND'' (- 2) \<in> set ?ks"
    by (simp only: hd_name of_nat_0 add_0_right)
  from constant_named_member [OF dist_names this]
  have lo: "constant_named ?ks ''INTERNAL_KIND'' = Some (Kind ''INTERNAL_KIND'' (- 2))"
    by (simp only: Kind.sel)
  have "?n - 1 < ?n" using n by simp
  from member [OF this] have "Kind ''LAST_KIND'' (- 2 + int ?n - 1) \<in> set ?ks"
    by (simp only: last_name last_value)
  from constant_named_member [OF dist_names this]
  have hi: "constant_named ?ks ''LAST_KIND'' = Some (Kind ''LAST_KIND'' (- 2 + int ?n - 1))"
    by (simp only: Kind.sel)
  have inside: "kindMap ?ks v = Some (Kind (fst (items ! nat (v + 2))) v)"
    if "\<not> (v < - 2 \<or> v > - 2 + int ?n - 1)"
  proof -
    from that have k: "nat (v + 2) < ?n" and v: "- 2 + int (nat (v + 2)) = v" by auto
    have "Kind (fst (items ! nat (v + 2))) (- 2 + int (nat (v + 2))) \<in> set ?ks"
      using k by (rule member)
    then have "Kind (fst (items ! nat (v + 2))) v \<in> set ?ks" by (simp only: v)
    from kindMap_member [OF dist_values this] show ?thesis by (simp only: Kind.sel)
  qed
  show ?thesis
  proof (cases "v < - 2 \<or> v > - 2 + int ?n - 1")
    case True
    then show ?thesis
      unfolding fromInt_between [OF lo hi] Kind.sel by (simp only: if_P)
  next
    case False
    then show ?thesis
      unfolding fromInt_between [OF lo hi] Kind.sel inside [OF False] by (simp only: if_not_P)
  qed
qed

section \<open>The emitter and the generated lookup, property by property\<close>

subsection \<open>Helper facts\<close>

lemma gen_java_code_nth_rows:
  "gen_java_code items =
     KINDS_JAVA_TOP
     @ concat (map (\<lambda>k. member_row (fst (items ! k)) (- 2 + int k)) [0..<length items])
     @ KINDS_JAVA_BOTTOM"
proof -
  have "map (\<lambda>(kind, k). member_row kind (- 2 + int k)) (zip (map fst items) [0..<length items])
        = map (\<lambda>k. member_row (fst (items ! k)) (- 2 + int k)) [0..<length items]"
    by (rule nth_equalityI) simp_all
  then show ?thesis by (simp only: gen_java_code_rows)
qed

lemma gen_java_code_keys:
  "map fst items = map fst items' \<Longrightarrow> gen_java_code items = gen_java_code items'"
proof -
  assume keys: "map fst items = map fst items'"
  then have "length items = length items'" by (rule map_eq_imp_length_eq)
  with keys show ?thesis by (simp only: gen_java_code_rows)
qed

lemma java_identifier_examples:
  "java_identifier ''AND''" "java_identifier ''OR''" "java_identifier ''NOT''"
  "java_identifier ''INTERNAL_KIND''" "java_identifier ''UNDEFINED_KIND''"
  "java_identifier ''NULL_EXPR''" "java_identifier ''LAST_KIND''"
  by (simp_all add: java_identifier_def java_letter_def java_digit_def java_reserved_def)

lemma gen_java_code_not_Nil: "gen_java_code items \<noteq> []"
  by (simp add: gen_java_code_rows KINDS_JAVA_TOP_def unlines_Cons)

subsection \<open>Code assignment\<close>

text \<open>
  Claim C1. For every input mapping the text holds, between header and footer, one row per
  entry in input order, and the row of the \<open>k\<close>-th entry (counted from 0) binds that entry's
  key to the code \<open>-2 + k\<close>. Read as Java (the keys of the dictionary being pairwise distinct
  identifiers), the text declares the constants in input order, the \<open>k\<close>-th with
  \<open>value = -2 + k\<close>. The witness is the input AND, OR, NOT with the codes -2, -1, 0.
\<close>

theorem gen_java_assigns_codes:
  assumes "distinct (map fst items)"
    and "\<forall>kind\<in>set (map fst items). java_identifier kind"
  shows "gen_java_code items =
           KINDS_JAVA_TOP
           @ concat (map (\<lambda>k. member_row (fst (items ! k)) (- 2 + int k)) [0..<length items])
           @ KINDS_JAVA_BOTTOM
         \<and> Kind_values (gen_java_code items)
           = Some (map (\<lambda>k. Kind (fst (items ! k)) (- 2 + int k)) [0..<length items])"
  using gen_java_code_nth_rows [of items] Kind_values_gen_java_code [OF assms] by (rule conjI)

theorem gen_java_assigns_codes_witness:
  "gen_java_code [(''AND'', ''And''), (''OR'', ''Or''), (''NOT'', ''Not'')]
   = KINDS_JAVA_TOP @ ''  AND(-2),\<newline>  OR(-1),\<newline>  NOT(0),\<newline>'' @ KINDS_JAVA_BOTTOM
   \<and> Kind_values (gen_java_code [(''AND'', ''And''), (''OR'', ''Or''), (''NOT'', ''Not'')])
     = Some [Kind ''AND'' (- 2), Kind ''OR'' (- 1), Kind ''NOT'' 0]"
proof -
  let ?items = "[(''AND'', ''And''), (''OR'', ''Or''), (''NOT'', ''Not'')]"
  have keys: "distinct (map fst ?items)" by simp
  have idents: "\<forall>kind\<in>set (map fst ?items). java_identifier kind"
    by (simp add: java_identifier_examples)
  note codes = gen_java_assigns_codes [OF keys idents]
  have "gen_java_code ?items
        = KINDS_JAVA_TOP @ ''  AND(-2),\<newline>  OR(-1),\<newline>  NOT(0),\<newline>'' @ KINDS_JAVA_BOTTOM"
    unfolding conjunct1 [OF codes]
    by (simp add: member_row_def str_int_def digits_of.simps newline_def)
  moreover have "Kind_values (gen_java_code ?items)
        = Some [Kind ''AND'' (- 2), Kind ''OR'' (- 1), Kind ''NOT'' 0]"
    unfolding conjunct2 [OF codes] by simp
  ultimately show ?thesis by (rule conjI)
qed

subsection \<open>Member names\<close>

text \<open>
  The claim that a member is declared under the display name (the value of the mapping)
  fails: for the entry AND with the display name And the constant is called AND.
\<close>

theorem display_name_counterexample:
  "map_option (map kind_name) (Kind_values (gen_java_code [(''AND'', ''And'')]))
   \<noteq> Some (map snd [(''AND'', ''And'')])"
  using Kind_values_gen_java_code [of "[(''AND'', ''And'')]"]
  by (simp add: java_identifier_examples)

text \<open>
  Claim C4, amended. The declared name of every member is the key of its entry, used
  verbatim; the display names are not used at all: replacing them by anything else leaves
  the text unchanged.
\<close>

theorem gen_java_names_are_keys:
  assumes "distinct (map fst items)"
    and "\<forall>kind\<in>set (map fst items). java_identifier kind"
  shows "map_option (map kind_name) (Kind_values (gen_java_code items)) = Some (map fst items)
         \<and> gen_java_code (map (\<lambda>(kind, name). (kind, display name)) items) = gen_java_code items"
proof
  have "map kind_name (map (\<lambda>k. Kind (fst (items ! k)) (- 2 + int k)) [0..<length items])
        = map fst items"
    by (rule nth_equalityI) simp_all
  then show "map_option (map kind_name) (Kind_values (gen_java_code items)) = Some (map fst items)"
    by (simp add: Kind_values_gen_java_code [OF assms])
  have "map fst (map (\<lambda>(kind, name). (kind, display name)) items) = map fst items"
    by (simp add: split_def comp_def)
  then show "gen_java_code (map (\<lambda>(kind, name). (kind, display name)) items) = gen_java_code items"
    by (rule gen_java_code_keys)
qed

theorem gen_java_names_are_keys_witness:
  "map_option (map kind_name) (Kind_values (gen_java_code [(''AND'', ''And''), (''OR'', ''Or'')]))
     = Some [''AND'', ''OR'']
   \<and> gen_java_code (map (\<lambda>(kind, name). (kind, rev name)) [(''AND'', ''And''), (''OR'', ''Or'')])
     = gen_java_code [(''AND'', ''And''), (''OR'', ''Or'')]"
  using gen_java_names_are_keys [of "[(''AND'', ''And''), (''OR'', ''Or'')]" rev]
  by (simp add: java_identifier_examples)

subsection \<open>Repeated names\<close>




subsection \<open>Input and output\<close>

text \<open>
  The claim that the emitter performs no I/O and hands the text back fails: \<open>gen_java\<close>
  returns nothing and changes the file system.
\<close>

theorem emitter_io_counterexample:
  "fst (gen_java NoFault [] ''Kind.java'' Map.empty) = Inr ()
   \<and> snd (gen_java NoFault [] ''Kind.java'' Map.empty) ''Kind.java''
     = Some (KINDS_JAVA_TOP @ KINDS_JAVA_BOTTOM)
   \<and> snd (gen_java NoFault [] ''Kind.java'' Map.empty) \<noteq> Map.empty"
  by (simp add: gen_java_NoFault gen_java_code_def)

text \<open>
  Claim C6, amended. \<open>gen_java\<close> does the output itself: it opens the file named by its
  argument, writes the text there and returns no text. The file it is given is the only
  one it touches: every other file keeps its content, whatever the outcome.
\<close>

theorem gen_java_writes_target:
  "gen_java NoFault items filename fs = (Inr (), fs(filename \<mapsto> gen_java_code items))
   \<and> (\<forall>fault other. other \<noteq> filename \<longrightarrow>
          snd (gen_java fault items filename fs) other = fs other)"
proof (intro conjI allI impI)
  show "gen_java NoFault items filename fs = (Inr (), fs(filename \<mapsto> gen_java_code items))"
    by (rule gen_java_NoFault)
next
  fix fault other
  assume "other \<noteq> filename"
  then show "snd (gen_java fault items filename fs) other = fs other"
    by (cases fault) (simp_all add: gen_java_NoFault gen_java_OpenFails gen_java_WriteFails)
qed

theorem gen_java_writes_target_witness:
  "snd (gen_java NoFault [] ''Kind.java'' [''Other.java'' \<mapsto> ''class Other {}'']) ''Other.java''
     = Some ''class Other {}''
   \<and> snd (gen_java NoFault [] ''Kind.java'' [''Other.java'' \<mapsto> ''class Other {}'']) ''Kind.java''
     = Some (gen_java_code [])"
  using gen_java_writes_target [of "[]" "''Kind.java''" "[''Other.java'' \<mapsto> ''class Other {}'']"]
  by simp

text \<open>
  The claim that a failing run leaves the target either complete or untouched fails: when
  the write fails before any character is stored, the target, which held a class before,
  is left empty.
\<close>

theorem truncated_target_counterexample:
  "fst (gen_java (WriteFails 0) [] ''Kind.java'' [''Kind.java'' \<mapsto> ''enum Kind {}'']) = Inl OSError
   \<and> snd (gen_java (WriteFails 0) [] ''Kind.java'' [''Kind.java'' \<mapsto> ''enum Kind {}'']) ''Kind.java''
     = Some []
   \<and> Some [] \<noteq> [''Kind.java'' \<mapsto> ''enum Kind {}''] ''Kind.java''
   \<and> Some [] \<noteq> Some (gen_java_code [])"
  using gen_java_code_not_Nil [of "[]"] by (simp add: gen_java_WriteFails)

text \<open>
  Claim C8, amended. When \<open>gen_java\<close> fails, either the target could not be opened and the
  file system is as before, or the target was truncated when it was opened and is left with
  a prefix of the text (possibly empty, possibly all of it). Only a run without a fault
  returns normally, and it leaves the complete text in the target.
\<close>

theorem gen_java_failure_outcome:
  "(gen_java fault items filename fs = (Inl e, fs') \<longrightarrow>
      (fault = OpenFails \<and> fs' = fs)
      \<or> (\<exists>written. fault = WriteFails written
            \<and> fs' = fs(filename \<mapsto> take written (gen_java_code items))
            \<and> prefix (take written (gen_java_code items)) (gen_java_code items)))
   \<and> (gen_java fault items filename fs = (Inr done, fs') \<longrightarrow>
        fault = NoFault \<and> fs' = fs(filename \<mapsto> gen_java_code items))"
  by (cases fault)
    (auto simp add: gen_java_NoFault gen_java_OpenFails gen_java_WriteFails take_is_prefix)

theorem gen_java_failure_outcome_witness:
  "gen_java (WriteFails 7) [] ''Kind.java'' [''Kind.java'' \<mapsto> ''enum Kind {}'']
     = (Inl OSError, [''Kind.java'' \<mapsto> take 7 (gen_java_code [])])
   \<and> prefix (take 7 (gen_java_code [])) (gen_java_code [])"
proof -
  let ?fs = "[''Kind.java'' \<mapsto> ''enum Kind {}'']"
  let ?fs' = "[''Kind.java'' \<mapsto> take 7 (gen_java_code [])]"
  have run: "gen_java (WriteFails 7) [] ''Kind.java'' ?fs = (Inl OSError, ?fs')"
    by (simp add: gen_java_WriteFails)
  from gen_java_failure_outcome [of "WriteFails 7" "[]" "''Kind.java''" ?fs OSError ?fs']
  have "(WriteFails 7 = OpenFails \<and> ?fs' = ?fs)
        \<or> (\<exists>written. WriteFails 7 = WriteFails written
              \<and> ?fs' = ?fs(''Kind.java'' \<mapsto> take written (gen_java_code []))
              \<and> prefix (take written (gen_java_code [])) (gen_java_code []))"
    using run by blast
  then have "prefix (take 7 (gen_java_code [])) (gen_java_code [])" by auto
  with run show ?thesis by (rule conjI)
qed

text \<open>
  Claim C9. Generation is deterministic, and nothing but the ordered sequence of kind names
  influences what is generated. Take two runs whose inputs have the same sequence of keys;
  the display names, the file systems before the runs, the names of the target files and
  the behaviour of the environment may all differ. If both runs return normally, they leave
  the same text in their targets, namely the header, the rows of the keys with the codes
  \<open>-2, -1, 0, \<dots>\<close> and the footer, so that the codes read from the two texts are the
  same. And whatever a run that opened its target leaves there, also when the write fails,
  is a prefix of the text of the other run.
\<close>

theorem gen_java_deterministic:
  assumes "map fst items1 = map fst items2"
  shows "(gen_java fault1 items1 filename1 fs1 = (Inr done1, fs1')
          \<and> gen_java fault2 items2 filename2 fs2 = (Inr done2, fs2') \<longrightarrow>
            fs1' filename1 = fs2' filename2
            \<and> fs1' filename1
              = Some (KINDS_JAVA_TOP
                      @ concat (map (\<lambda>(kind, k). member_row kind (- 2 + int k))
                                  (zip (map fst items2) [0..<length (map fst items2)]))
                      @ KINDS_JAVA_BOTTOM)
            \<and> Kind_values (the (fs1' filename1)) = Kind_values (the (fs2' filename2)))
         \<and> (fault1 \<noteq> OpenFails \<longrightarrow>
              (\<exists>p. snd (gen_java fault1 items1 filename1 fs1) filename1 = Some p
                   \<and> prefix p (gen_java_code items2)))"
proof (intro conjI impI)
  have same: "gen_java_code items1 = gen_java_code items2"
    using assms by (rule gen_java_code_keys)
  {
    assume runs: "gen_java fault1 items1 filename1 fs1 = (Inr done1, fs1')
          \<and> gen_java fault2 items2 filename2 fs2 = (Inr done2, fs2')"
    have first: "fs1' filename1 = Some (gen_java_code items1)"
      using runs
      by (cases fault1) (auto simp add: gen_java_NoFault gen_java_OpenFails gen_java_WriteFails)
    have second: "fs2' filename2 = Some (gen_java_code items2)"
      using runs
      by (cases fault2) (auto simp add: gen_java_NoFault gen_java_OpenFails gen_java_WriteFails)
    show "fs1' filename1 = fs2' filename2" by (simp only: first second same)
    show "fs1' filename1
              = Some (KINDS_JAVA_TOP
                      @ concat (map (\<lambda>(kind, k). member_row kind (- 2 + int k))
                                  (zip (map fst items2) [0..<length (map fst items2)]))
                      @ KINDS_JAVA_BOTTOM)"
      unfolding first same by (simp only: gen_java_code_rows length_map)
    show "Kind_values (the (fs1' filename1)) = Kind_values (the (fs2' filename2))"
      by (simp only: first second same)
  }
  assume "fault1 \<noteq> OpenFails"
  then have "\<exists>p. snd (gen_java fault1 items1 filename1 fs1) filename1 = Some p
       \<and> prefix p (gen_java_code items1)"
    by (cases fault1) (simp_all add: gen_java_NoFault gen_java_WriteFails take_is_prefix)
  then show "\<exists>p. snd (gen_java fault1 items1 filename1 fs1) filename1 = Some p
       \<and> prefix p (gen_java_code items2)"
    by (simp only: same)
qed

theorem gen_java_deterministic_witness:
  "snd (gen_java NoFault [(''AND'', ''And''), (''OR'', ''Or'')] ''Kind.java'' Map.empty) ''Kind.java''
   = snd (gen_java NoFault [(''AND'', ''Conjunction''), (''OR'', ''Disjunction'')] ''Kinds.java''
            [''Kinds.java'' \<mapsto> ''enum Kind {}'']) ''Kinds.java''
   \<and> snd (gen_java NoFault [(''AND'', ''And''), (''OR'', ''Or'')] ''Kind.java'' Map.empty) ''Kind.java''
     = Some (KINDS_JAVA_TOP @ ''  AND(-2),\<newline>  OR(-1),\<newline>'' @ KINDS_JAVA_BOTTOM)
   \<and> (\<exists>p. snd (gen_java (WriteFails 90) [(''AND'', ''And''), (''OR'', ''Or'')] ''Kind.java'' Map.empty)
              ''Kind.java'' = Some p
          \<and> prefix p (gen_java_code [(''AND'', ''Conjunction''), (''OR'', ''Disjunction'')]))"
proof -
  let ?items1 = "[(''AND'', ''And''), (''OR'', ''Or'')]"
  let ?items2 = "[(''AND'', ''Conjunction''), (''OR'', ''Disjunction'')]"
  let ?fs2 = "[''Kinds.java'' \<mapsto> ''enum Kind {}'']"
  let ?run1 = "gen_java NoFault ?items1 ''Kind.java'' Map.empty"
  let ?run2 = "gen_java NoFault ?items2 ''Kinds.java'' ?fs2"
  have keys: "map fst ?items1 = map fst ?items2" by simp
  have runs: "?run1 = (Inr (), snd ?run1) \<and> ?run2 = (Inr (), snd ?run2)"
    by (simp add: gen_java_NoFault)
  from gen_java_deterministic [OF keys, of NoFault "''Kind.java''" Map.empty "()" "snd ?run1"
      NoFault "''Kinds.java''" ?fs2 "()" "snd ?run2"]
  have both: "snd ?run1 ''Kind.java'' = snd ?run2 ''Kinds.java''
       \<and> snd ?run1 ''Kind.java''
         = Some (KINDS_JAVA_TOP
                 @ concat (map (\<lambda>(kind, k). member_row kind (- 2 + int k))
                             (zip (map fst ?items2) [0..<length (map fst ?items2)]))
                 @ KINDS_JAVA_BOTTOM)"
    using runs by blast
  have same: "snd ?run1 ''Kind.java'' = snd ?run2 ''Kinds.java''"
    using both by (rule conjunct1)
  have "snd ?run1 ''Kind.java''
        = Some (KINDS_JAVA_TOP @ ''  AND(-2),\<newline>  OR(-1),\<newline>'' @ KINDS_JAVA_BOTTOM)"
    unfolding conjunct2 [OF both]
    by (simp add: member_row_def str_int_def digits_of.simps newline_def)
  moreover from gen_java_deterministic [OF keys, of "WriteFails 90" "''Kind.java''" Map.empty]
  have "\<exists>p. snd (gen_java (WriteFails 90) ?items1 ''Kind.java'' Map.empty) ''Kind.java'' = Some p
          \<and> prefix p (gen_java_code ?items2)"
    by simp
  ultimately show ?thesis using same by (intro conjI)
qed

text \<open>
  Claim C10. For every input mapping, the text written is exactly the header block, then one
  row per entry in input order (two spaces, the entry's key, the code in parentheses, a
  comma and a newline; the comma follows every row, the last one included), then the footer
  block, and nothing else.
\<close>

theorem gen_java_text_layout:
  "gen_java NoFault items filename fs =
     (Inr (),
      fs(filename \<mapsto>
         KINDS_JAVA_TOP
         @ concat (map (\<lambda>(kind, k). ''  '' @ kind @ ''('' @ str_int (- 2 + int k) @ ''),'' @ [newline])
                     (zip (map fst items) [0..<length items]))
         @ KINDS_JAVA_BOTTOM))"
  by (simp add: gen_java_NoFault gen_java_code_rows member_row_def)

subsection \<open>The lookup fromInt\<close>

text \<open>
  The bounds that \<open>fromInt\<close> tests are the values of the constants called INTERNAL\_KIND and
  LAST\_KIND, wherever they stand. When LAST\_KIND comes first and INTERNAL\_KIND second, the
  lowest code -2 is rejected; for the names AND, OR, NOT the two constants do not exist and
  there is no lookup.
\<close>

theorem sentinel_order_counterexample:
  "Kind_values (gen_java_code [(''LAST_KIND'', ''Last Kind''), (''INTERNAL_KIND'', ''Internal Kind'')])
     = Some [Kind ''LAST_KIND'' (- 2), Kind ''INTERNAL_KIND'' (- 1)]
   \<and> fromInt [Kind ''LAST_KIND'' (- 2), Kind ''INTERNAL_KIND'' (- 1)] (- 2)
     = Inl (CVCApiException ''Kind value -2 is outside the valid range [-1,-2]'')
   \<and> Kind_values (gen_java_code [(''AND'', ''And''), (''OR'', ''Or''), (''NOT'', ''Not'')])
     = Some [Kind ''AND'' (- 2), Kind ''OR'' (- 1), Kind ''NOT'' 0]
   \<and> fromInt [Kind ''AND'' (- 2), Kind ''OR'' (- 1), Kind ''NOT'' 0] (- 2)
     = Inl (CannotFindSymbol ''INTERNAL_KIND'')"
proof (intro conjI)
  show "Kind_values (gen_java_code [(''LAST_KIND'', ''Last Kind''), (''INTERNAL_KIND'', ''Internal Kind'')])
     = Some [Kind ''LAST_KIND'' (- 2), Kind ''INTERNAL_KIND'' (- 1)]"
    using Kind_values_gen_java_code
      [of "[(''LAST_KIND'', ''Last Kind''), (''INTERNAL_KIND'', ''Internal Kind'')]"]
    by (simp add: java_identifier_examples)
  show "fromInt [Kind ''LAST_KIND'' (- 2), Kind ''INTERNAL_KIND'' (- 1)] (- 2)
     = Inl (CVCApiException ''Kind value -2 is outside the valid range [-1,-2]'')"
    by (simp add: fromInt_def constant_named_def str_int_def digits_of.simps)
  show "Kind_values (gen_java_code [(''AND'', ''And''), (''OR'', ''Or''), (''NOT'', ''Not'')])
     = Some [Kind ''AND'' (- 2), Kind ''OR'' (- 1), Kind ''NOT'' 0]"
    using Kind_values_gen_java_code [of "[(''AND'', ''And''), (''OR'', ''Or''), (''NOT'', ''Not'')]"]
    by (simp add: java_identifier_examples)
  show "fromInt [Kind ''AND'' (- 2), Kind ''OR'' (- 1), Kind ''NOT'' 0] (- 2)
     = Inl (CannotFindSymbol ''INTERNAL_KIND'')"
    by (simp add: fromInt_def constant_named_def)
qed

text \<open>
  Claim C2, amended. Let the input be a dictionary of \<open>n\<close> identifiers whose first key is
  INTERNAL\_KIND and whose last key is LAST\_KIND. Then \<open>fromInt\<close> of the generated
  enumeration, applied to a value outside \<open>[-2, -2 + n - 1]\<close>, throws a \<open>CVCApiException\<close>
  whose message gives the value and the two bounds, and applied to a value in the range
  returns the constant declared at that position. In particular \<open>fromInt (-2 - 1)\<close> and
  \<open>fromInt (-2 + n)\<close> fail, \<open>fromInt (-2)\<close> is INTERNAL\_KIND and \<open>fromInt (-2 + n - 1)\<close> is
  LAST\_KIND.
\<close>

theorem fromInt_range_check:
  assumes "distinct (map fst items)"
    and "\<forall>kind\<in>set (map fst items). java_identifier kind"
    and "items \<noteq> []"
    and "fst (hd items) = ''INTERNAL_KIND''"
    and "fst (last items) = ''LAST_KIND''"
  shows "\<exists>ks. Kind_values (gen_java_code items) = Some ks
           \<and> length ks = length items
           \<and> (\<forall>v. v < - 2 \<or> - 2 + int (length items) - 1 < v \<longrightarrow>
                  fromInt ks v
                  = Inl (CVCApiException
                           (''Kind value '' @ str_int v @ '' is outside the valid range [''
                            @ str_int (- 2) @ '','' @ str_int (- 2 + int (length items) - 1)
                            @ '']'')))
           \<and> (\<forall>v. - 2 \<le> v \<and> v \<le> - 2 + int (length items) - 1 \<longrightarrow>
                  fromInt ks v = Inr (Some (ks ! nat (v + 2))))
           \<and> (\<exists>msg. fromInt ks (- 2 - 1) = Inl (CVCApiException msg))
           \<and> (\<exists>msg. fromInt ks (- 2 + int (length items)) = Inl (CVCApiException msg))
           \<and> fromInt ks (- 2) = Inr (Some (Kind ''INTERNAL_KIND'' (- 2)))
           \<and> fromInt ks (- 2 + int (length items) - 1)
             = Inr (Some (Kind ''LAST_KIND'' (- 2 + int (length items) - 1)))"
proof -
  let ?n = "length items"
  let ?ks = "map (\<lambda>k. Kind (fst (items ! k)) (- 2 + int k)) [0..<?n]"
  note lookup = fromInt_sentinels [OF assms(1) assms(3) assms(4) assms(5)]
  have n: "0 < ?n" using assms(3) by simp
  have hd_name: "fst (items ! 0) = ''INTERNAL_KIND''"
    using assms(3) assms(4) by (simp add: hd_conv_nth)
  have last_name: "fst (items ! (?n - 1)) = ''LAST_KIND''"
    using assms(3) assms(5) by (simp add: last_conv_nth)
  have fails: "fromInt ?ks v
      = Inl (CVCApiException
               (''Kind value '' @ str_int v @ '' is outside the valid range [''
                @ str_int (- 2) @ '','' @ str_int (- 2 + int ?n - 1) @ '']''))"
    if "v < - 2 \<or> v > - 2 + int ?n - 1" for v
    unfolding lookup using that by (simp only: if_P if_True)
  have succeeds: "fromInt ?ks v = Inr (Some (Kind (fst (items ! nat (v + 2))) v))"
    if "\<not> (v < - 2 \<or> v > - 2 + int ?n - 1)" for v
    unfolding lookup using that by (simp only: if_not_P if_False)
  have outside: "\<forall>v. v < - 2 \<or> - 2 + int ?n - 1 < v \<longrightarrow>
      fromInt ?ks v
      = Inl (CVCApiException
               (''Kind value '' @ str_int v @ '' is outside the valid range [''
                @ str_int (- 2) @ '','' @ str_int (- 2 + int ?n - 1) @ '']''))"
    using fails by blast
  have inside: "\<forall>v. - 2 \<le> v \<and> v \<le> - 2 + int ?n - 1 \<longrightarrow>
      fromInt ?ks v = Inr (Some (?ks ! nat (v + 2)))"
  proof (intro allI impI)
    fix v :: int
    assume v: "- 2 \<le> v \<and> v \<le> - 2 + int ?n - 1"
    then have "nat (v + 2) < ?n" and "- 2 + int (nat (v + 2)) = v" by auto
    then have "?ks ! nat (v + 2) = Kind (fst (items ! nat (v + 2))) v" by simp
    moreover have "\<not> (v < - 2 \<or> v > - 2 + int ?n - 1)" using v by arith
    ultimately show "fromInt ?ks v = Inr (Some (?ks ! nat (v + 2)))"
      using succeeds by simp
  qed
  have "(- 2 - 1 :: int) < - 2 \<or> (- 2 - 1 :: int) > - 2 + int ?n - 1" by simp
  from fails [OF this] have below: "\<exists>msg. fromInt ?ks (- 2 - 1) = Inl (CVCApiException msg)" ..
  have "- 2 + int ?n < - 2 \<or> - 2 + int ?n > - 2 + int ?n - 1" by simp
  from fails [OF this] have above: "\<exists>msg. fromInt ?ks (- 2 + int ?n) = Inl (CVCApiException msg)" ..
  have "\<not> ((- 2 :: int) < - 2 \<or> (- 2 :: int) > - 2 + int ?n - 1)" using n by simp
  from succeeds [OF this] have lowest: "fromInt ?ks (- 2) = Inr (Some (Kind ''INTERNAL_KIND'' (- 2)))"
    using hd_name by simp
  have "\<not> (- 2 + int ?n - 1 < - 2 \<or> - 2 + int ?n - 1 > - 2 + int ?n - 1)" using n by simp
  from succeeds [OF this]
  have "fromInt ?ks (- 2 + int ?n - 1)
      = Inr (Some (Kind (fst (items ! nat (- 2 + int ?n - 1 + 2))) (- 2 + int ?n - 1)))" .
  moreover have "nat (- 2 + int ?n - 1 + 2) = ?n - 1" by simp
  ultimately have highest: "fromInt ?ks (- 2 + int ?n - 1)
      = Inr (Some (Kind ''LAST_KIND'' (- 2 + int ?n - 1)))"
    using last_name by (simp only:)
  have "Kind_values (gen_java_code items) = Some ?ks"
    by (rule Kind_values_gen_java_code [OF assms(1) assms(2)])
  moreover have "length ?ks = ?n" by simp
  ultimately show ?thesis
    using outside inside below above lowest highest by blast
qed

theorem fromInt_range_check_witness:
  "\<exists>ks. Kind_values (gen_java_code
            [(''INTERNAL_KIND'', ''Internal Kind''), (''UNDEFINED_KIND'', ''Undefined Kind''),
             (''NULL_EXPR'', ''Null Expr''), (''LAST_KIND'', ''Last Kind'')]) = Some ks
      \<and> length ks = 4
      \<and> fromInt ks (- 3)
        = Inl (CVCApiException ''Kind value -3 is outside the valid range [-2,1]'')
      \<and> fromInt ks 2
        = Inl (CVCApiException ''Kind value 2 is outside the valid range [-2,1]'')
      \<and> fromInt ks (- 2) = Inr (Some (Kind ''INTERNAL_KIND'' (- 2)))
      \<and> fromInt ks 1 = Inr (Some (Kind ''LAST_KIND'' 1))"
proof -
  let ?items = "[(''INTERNAL_KIND'', ''Internal Kind''), (''UNDEFINED_KIND'', ''Undefined Kind''),
                 (''NULL_EXPR'', ''Null Expr''), (''LAST_KIND'', ''Last Kind'')]"
  have keys: "distinct (map fst ?items)" by simp
  have idents: "\<forall>kind\<in>set (map fst ?items). java_identifier kind"
    by (simp add: java_identifier_examples)
  have nonempty: "?items \<noteq> []" by simp
  have hd_sentinel: "fst (hd ?items) = ''INTERNAL_KIND''" by simp
  have last_sentinel: "fst (last ?items) = ''LAST_KIND''" by simp
  from fromInt_range_check [OF keys idents nonempty hd_sentinel last_sentinel]
  obtain ks where ks: "Kind_values (gen_java_code ?items) = Some ks"
    and len: "length ks = length ?items"
    and outside: "\<And>v. v < - 2 \<or> - 2 + int (length ?items) - 1 < v \<Longrightarrow>
           fromInt ks v
           = Inl (CVCApiException
                    (''Kind value '' @ str_int v @ '' is outside the valid range [''
                     @ str_int (- 2) @ '','' @ str_int (- 2 + int (length ?items) - 1) @ '']''))"
    and lowest: "fromInt ks (- 2) = Inr (Some (Kind ''INTERNAL_KIND'' (- 2)))"
    and highest: "fromInt ks (- 2 + int (length ?items) - 1)
           = Inr (Some (Kind ''LAST_KIND'' (- 2 + int (length ?items) - 1)))"
    by blast
  have "fromInt ks (- 3) = Inl (CVCApiException ''Kind value -3 is outside the valid range [-2,1]'')"
    using outside [of "- 3"] by (simp add: str_int_def digits_of.simps)
  moreover have "fromInt ks 2 = Inl (CVCApiException ''Kind value 2 is outside the valid range [-2,1]'')"
    using outside [of 2] by (simp add: str_int_def digits_of.simps)
  moreover have "fromInt ks 1 = Inr (Some (Kind ''LAST_KIND'' 1))"
    using highest by simp
  moreover have "length ks = 4" using len by simp
  ultimately show ?thesis using ks lowest by blast
qed

text \<open>
  Without the condition on the last key the lookup is not the inverse of \<open>getValue\<close>: a
  constant AND declared after LAST\_KIND has the value 0, which \<open>fromInt\<close> rejects.
\<close>

theorem extra_member_counterexample:
  "Kind_values (gen_java_code
      [(''INTERNAL_KIND'', ''Internal Kind''), (''LAST_KIND'', ''Last Kind''), (''AND'', ''And'')])
     = Some [Kind ''INTERNAL_KIND'' (- 2), Kind ''LAST_KIND'' (- 1), Kind ''AND'' 0]
   \<and> fromInt [Kind ''INTERNAL_KIND'' (- 2), Kind ''LAST_KIND'' (- 1), Kind ''AND'' 0]
        (getValue (Kind ''AND'' 0))
     = Inl (CVCApiException ''Kind value 0 is outside the valid range [-2,-1]'')"
proof
  show "Kind_values (gen_java_code
      [(''INTERNAL_KIND'', ''Internal Kind''), (''LAST_KIND'', ''Last Kind''), (''AND'', ''And'')])
     = Some [Kind ''INTERNAL_KIND'' (- 2), Kind ''LAST_KIND'' (- 1), Kind ''AND'' 0]"
    using Kind_values_gen_java_code
      [of "[(''INTERNAL_KIND'', ''Internal Kind''), (''LAST_KIND'', ''Last Kind''), (''AND'', ''And'')]"]
    by (simp add: java_identifier_examples)
  show "fromInt [Kind ''INTERNAL_KIND'' (- 2), Kind ''LAST_KIND'' (- 1), Kind ''AND'' 0]
        (getValue (Kind ''AND'' 0))
     = Inl (CVCApiException ''Kind value 0 is outside the valid range [-2,-1]'')"
    by (simp add: fromInt_def constant_named_def str_int_def digits_of.simps)
qed

text \<open>
  Claim C3, amended. Let the input be a dictionary of \<open>n\<close> identifiers whose first key is
  INTERNAL\_KIND and whose last key is LAST\_KIND. Then \<open>fromInt\<close> and \<open>getValue\<close> are inverse
  to each other: for every code \<open>v\<close> in \<open>[-2, -2 + n - 1]\<close>, \<open>fromInt v\<close> is a constant whose
  value is \<open>v\<close>, and for every constant \<open>m\<close>, \<open>fromInt (getValue m)\<close> is \<open>m\<close>.
\<close>

theorem fromInt_getValue_inverse:
  assumes "distinct (map fst items)"
    and "\<forall>kind\<in>set (map fst items). java_identifier kind"
    and "items \<noteq> []"
    and "fst (hd items) = ''INTERNAL_KIND''"
    and "fst (last items) = ''LAST_KIND''"
  shows "\<exists>ks. Kind_values (gen_java_code items) = Some ks
           \<and> (\<forall>v. - 2 \<le> v \<and> v \<le> - 2 + int (length items) - 1 \<longrightarrow>
                  (\<exists>m. fromInt ks v = Inr (Some m) \<and> m \<in> set ks \<and> getValue m = v))
           \<and> (\<forall>m\<in>set ks. fromInt ks (getValue m) = Inr (Some m))"
proof -
  let ?n = "length items"
  let ?ks = "map (\<lambda>k. Kind (fst (items ! k)) (- 2 + int k)) [0..<?n]"
  note lookup = fromInt_sentinels [OF assms(1) assms(3) assms(4) assms(5)]
  have succeeds: "fromInt ?ks v = Inr (Some (Kind (fst (items ! nat (v + 2))) v))"
    if "\<not> (v < - 2 \<or> v > - 2 + int ?n - 1)" for v
    unfolding lookup using that by (simp only: if_not_P if_False)
  have at_index: "fromInt ?ks (- 2 + int k) = Inr (Some (Kind (fst (items ! k)) (- 2 + int k)))"
    if "k < ?n" for k
  proof -
    have "\<not> (- 2 + int k < - 2 \<or> - 2 + int k > - 2 + int ?n - 1)" using that by simp
    from succeeds [OF this] show ?thesis by simp
  qed
  have codes: "\<forall>v. - 2 \<le> v \<and> v \<le> - 2 + int ?n - 1 \<longrightarrow>
      (\<exists>m. fromInt ?ks v = Inr (Some m) \<and> m \<in> set ?ks \<and> getValue m = v)"
  proof (intro allI impI)
    fix v :: int
    assume v: "- 2 \<le> v \<and> v \<le> - 2 + int ?n - 1"
    then have k: "nat (v + 2) < ?n" and v_eq: "- 2 + int (nat (v + 2)) = v" by auto
    have "fromInt ?ks v = Inr (Some (Kind (fst (items ! nat (v + 2))) v))"
      using at_index [OF k] by (simp only: v_eq)
    moreover have "Kind (fst (items ! nat (v + 2))) v \<in> set ?ks"
    proof -
      have "Kind (fst (items ! nat (v + 2))) (- 2 + int (nat (v + 2))) \<in> set ?ks"
        using k by auto
      then show ?thesis by (simp only: v_eq)
    qed
    ultimately show "\<exists>m. fromInt ?ks v = Inr (Some m) \<and> m \<in> set ?ks \<and> getValue m = v"
      by auto
  qed
  have members: "\<forall>m\<in>set ?ks. fromInt ?ks (getValue m) = Inr (Some m)"
  proof
    fix m assume "m \<in> set ?ks"
    then obtain k where k: "k < ?n" and m: "m = Kind (fst (items ! k)) (- 2 + int k)" by auto
    show "fromInt ?ks (getValue m) = Inr (Some m)"
      using at_index [OF k] by (simp only: m Kind.sel)
  qed
  have "Kind_values (gen_java_code items) = Some ?ks"
    by (rule Kind_values_gen_java_code [OF assms(1) assms(2)])
  then show ?thesis using codes members by blast
qed

theorem fromInt_getValue_inverse_witness:
  "\<exists>ks. Kind_values (gen_java_code
            [(''INTERNAL_KIND'', ''Internal Kind''), (''UNDEFINED_KIND'', ''Undefined Kind''),
             (''LAST_KIND'', ''Last Kind'')]) = Some ks
      \<and> (\<exists>m. fromInt ks (- 1) = Inr (Some m) \<and> m \<in> set ks \<and> getValue m = - 1)
      \<and> list_all (\<lambda>m. fromInt ks (getValue m) = Inr (Some m)) ks"
proof -
  let ?items = "[(''INTERNAL_KIND'', ''Internal Kind''), (''UNDEFINED_KIND'', ''Undefined Kind''),
                 (''LAST_KIND'', ''Last Kind'')]"
  have keys: "distinct (map fst ?items)" by simp
  have idents: "\<forall>kind\<in>set (map fst ?items). java_identifier kind"
    by (simp add: java_identifier_examples)
  have nonempty: "?items \<noteq> []" by simp
  have hd_sentinel: "fst (hd ?items) = ''INTERNAL_KIND''" by simp
  have last_sentinel: "fst (last ?items) = ''LAST_KIND''" by simp
  from fromInt_getValue_inverse [OF keys idents nonempty hd_sentinel last_sentinel]
  obtain ks where ks: "Kind_values (gen_java_code ?items) = Some ks"
    and codes: "\<And>v. - 2 \<le> v \<and> v \<le> - 2 + int (length ?items) - 1 \<Longrightarrow>
           \<exists>m. fromInt ks v = Inr (Some m) \<and> m \<in> set ks \<and> getValue m = v"
    and members: "\<forall>m\<in>set ks. fromInt ks (getValue m) = Inr (Some m)"
    by blast
  have "\<exists>m. fromInt ks (- 1) = Inr (Some m) \<and> m \<in> set ks \<and> getValue m = - 1"
    using codes [of "- 1"] by simp
  moreover have "list_all (\<lambda>m. fromInt ks (getValue m) = Inr (Some m)) ks"
    using members by (simp only: list_all_iff)
  ultimately show ?thesis using ks by blast
qed

subsection \<open>The empty input\<close>

text \<open>
  For the empty input the claim expects a lookup that fails with a message about an empty
  range. The text declares no constant, so INTERNAL\_KIND, which \<open>fromInt\<close> refers to, does
  not exist: there is no \<open>CVCApiException\<close> at all.
\<close>

theorem empty_input_counterexample:
  "Kind_values (gen_java_code []) = Some []
   \<and> fromInt [] 0 = Inl (CannotFindSymbol ''INTERNAL_KIND'')
   \<and> (\<forall>msg. fromInt [] 0 \<noteq> Inl (CVCApiException msg))"
  using Kind_values_gen_java_code [of "[]"]
  by (simp add: fromInt_def constant_named_def)

text \<open>
  Claim C7, amended. For the empty input generation succeeds and writes the header followed
  directly by the footer, a text that declares no constant. \<open>fromInt\<close> in that text refers
  to INTERNAL\_KIND and LAST\_KIND, which are not declared: for every argument the outcome
  is that the symbol cannot be found, and no message about an empty range exists.
\<close>

theorem gen_java_empty_input:
  "gen_java NoFault [] filename fs = (Inr (), fs(filename \<mapsto> KINDS_JAVA_TOP @ KINDS_JAVA_BOTTOM))
   \<and> Kind_values (KINDS_JAVA_TOP @ KINDS_JAVA_BOTTOM) = Some []
   \<and> (\<forall>v. fromInt [] v = Inl (CannotFindSymbol ''INTERNAL_KIND''))"
  using Kind_values_gen_java_code [of "[]"]
  by (simp add: gen_java_NoFault gen_java_code_def fromInt_def constant_named_def)

end
